theory Spec2Isabelle
  imports Main
begin

section \<open>JavaScript values\<close>

text \<open>
  The values that flow through \<^verbatim>\<open>src/agent/agent.js\<close>: tool arguments decoded from the
  model's response, bodies returned by the tuition backend, fields of a Firestore document.
  A number is represented by its ECMAScript rendering \<^verbatim>\<open>String(n)\<close> (which identifies the
  double up to the sign of zero); the program only ever tests a number for truthiness or
  splices it into a template literal.
\<close>

datatype jsval =
    JUndefined
  | JNull
  | JBool bool
  | JNum string
  | JStr string
  | JArr "jsval list"
  | JObj "(string \<times> jsval) list"

text \<open>A thrown \<^verbatim>\<open>Error\<close>, with its \<^verbatim>\<open>message\<close>.\<close>

datatype js_error = JsError (message: string)

text \<open>ECMAScript ToBoolean, as used by \<^verbatim>\<open>!messageData.processed\<close>.\<close>

fun truthy :: "jsval \<Rightarrow> bool" where
  "truthy JUndefined = False"
| "truthy JNull = False"
| "truthy (JBool b) = b"
| "truthy (JNum s) = (s \<noteq> ''0'' \<and> s \<noteq> ''NaN'')"
| "truthy (JStr s) = (s \<noteq> [])"
| "truthy (JArr xs) = True"
| "truthy (JObj kvs) = True"

text \<open>
  ECMAScript ToString, as applied by a template literal \<^verbatim>\<open>`${v}`\<close>: the string, or the
  TypeError thrown. A plain object renders as \<^verbatim>\<open>[object Object]\<close> through the inherited
  \<^verbatim>\<open>toString\<close>; an own key \<^verbatim>\<open>toString\<close> shadows it with a value that is not callable, the
  inherited \<^verbatim>\<open>valueOf\<close> (or a second shadowing key) yields no primitive, and the conversion
  throws (message as V8 words it). An array is joined with commas, each element converted
  in turn, \<^verbatim>\<open>null\<close> and \<^verbatim>\<open>undefined\<close> elements rendering as the empty string.
\<close>

fun ToString :: "jsval \<Rightarrow> js_error + string"
  and array_join :: "jsval list \<Rightarrow> js_error + string" where
  "ToString JUndefined = Inr ''undefined''"
| "ToString JNull = Inr ''null''"
| "ToString (JBool b) = Inr (if b then ''true'' else ''false'')"
| "ToString (JNum s) = Inr s"
| "ToString (JStr s) = Inr s"
| "ToString (JArr xs) = array_join xs"
| "ToString (JObj kvs) =
     (if map_of kvs ''toString'' \<noteq> None
      then Inl (JsError ''Cannot convert object to primitive value'')
      else Inr ''[object Object]'')"
| "array_join [] = Inr []"
| "array_join [x] = (if x = JUndefined \<or> x = JNull then Inr [] else ToString x)"
| "array_join (x # y # ys) =
     (case (if x = JUndefined \<or> x = JNull then Inr [] else ToString x) of
        Inl err \<Rightarrow> Inl err
      | Inr s \<Rightarrow>
          (case array_join (y # ys) of
             Inl err \<Rightarrow> Inl err
           | Inr r \<Rightarrow> Inr (s @ '','' @ r)))"

text \<open>
  Property read \<^verbatim>\<open>v.k\<close> for the two keys the program reads from tool arguments
  (\<^verbatim>\<open>student_id\<close>, \<^verbatim>\<open>amount\<close>) and the keys it reads from a document. Reading from
  \<^verbatim>\<open>undefined\<close> or \<^verbatim>\<open>null\<close> throws a TypeError (message as V8 words it); an object
  yields the field or \<^verbatim>\<open>undefined\<close>; no other value has such a property.
\<close>

fun get_prop :: "jsval \<Rightarrow> string \<Rightarrow> js_error + jsval" where
  "get_prop JUndefined k =
     Inl (JsError (''Cannot read properties of undefined (reading '' @ [CHR 0x27] @ k @ [CHR 0x27] @ '')''))"
| "get_prop JNull k =
     Inl (JsError (''Cannot read properties of null (reading '' @ [CHR 0x27] @ k @ [CHR 0x27] @ '')''))"
| "get_prop (JObj kvs) k = Inr (case map_of kvs k of None \<Rightarrow> JUndefined | Some v \<Rightarrow> v)"
| "get_prop v k = Inr JUndefined"

section \<open>Tool definitions\<close>

datatype schema_type = OBJECT | STRING | NUMBER

record property_schema =
  prop_type :: schema_type
  prop_description :: string

record parameters_schema =
  params_type :: schema_type
  params_description :: string
  properties :: "(string \<times> property_schema) list"
  required :: "string list"

record tool_declaration =
  tool_name :: string
  parameters :: parameters_schema

definition checkTuitionTool :: tool_declaration where
  "checkTuitionTool =
     \<lparr> tool_name = ''check_tuition'',
       parameters =
         \<lparr> params_type = OBJECT,
           params_description = ''Check the outstanding tuition fee for a student.'',
           properties =
             [(''student_id'',
               \<lparr> prop_type = STRING, prop_description = ''The ID of the student to check.'' \<rparr>)],
           required = [''student_id''] \<rparr> \<rparr>"

definition payTuitionTool :: tool_declaration where
  "payTuitionTool =
     \<lparr> tool_name = ''pay_tuition'',
       parameters =
         \<lparr> params_type = OBJECT,
           params_description = ''Process a tuition payment for a student.'',
           properties =
             [(''student_id'',
               \<lparr> prop_type = STRING, prop_description = ''The ID of the student paying.'' \<rparr>),
              (''amount'',
               \<lparr> prop_type = NUMBER, prop_description = ''The amount to pay.'' \<rparr>)],
           required = [''student_id'', ''amount''] \<rparr> \<rparr>"

section \<open>The outside world\<close>

text \<open>
  Every call that leaves the process is recorded as an event, in the order the calls are
  issued. Console output is not recorded.
\<close>

record function_call =
  call_name :: jsval
  call_args :: jsval

record part =
  part_text :: "string option"
  functionCall :: "function_call option"

record function_response =
  fr_name :: jsval
  fr_result :: jsval

text \<open>
  The parts of one turn of a request: \<^verbatim>\<open>{text: ...}\<close>, a part of the model's earlier
  response passed back as it was, or \<^verbatim>\<open>{functionResponse: {name, response: {result}}}\<close>.
\<close>

datatype request_part =
    TextPart jsval
  | ResponsePart part
  | FunctionResponsePart function_response

record turn =
  turn_role :: string
  turn_parts :: "request_part list"

record generate_config =
  systemInstruction :: string
  tools :: "tool_declaration list option"

record generate_request =
  model :: string
  contents :: "turn list"
  config :: generate_config

text \<open>
  The response of \<^verbatim>\<open>ai.models.generateContent\<close>, with the optional fields of the SDK's
  types: \<^verbatim>\<open>candidates?\<close>, \<^verbatim>\<open>content?\<close>, \<^verbatim>\<open>parts?\<close>, and the \<^verbatim>\<open>text\<close> accessor, which
  is a string or \<^verbatim>\<open>undefined\<close>.
\<close>

record content =
  content_parts :: "part list option"

record candidate =
  candidate_content :: "content option"

record generate_response =
  candidates :: "candidate list option"
  response_text :: "string option"

text \<open>
  What the bridge writes with \<^verbatim>\<open>db.collection('chats').add\<close>. \<^verbatim>\<open>createdAt\<close> is either a
  \<^verbatim>\<open>Date\<close> built by the writer (milliseconds since the epoch) or the sentinel that asks
  the log to stamp the document itself.
\<close>

datatype timestamp_value = ClientDate nat | ServerTimestamp

record chat_doc =
  doc_text :: string
  doc_role :: string
  createdAt :: timestamp_value
  relatedToMessageId :: "string option"

datatype event =
    ChatsUpdateProcessed string
  | ChatsAdd chat_doc
  | GenerateContent generate_request
  | AxiosGet string
  | AxiosPost string jsval

text \<open>
  The collaborators answer as a function of everything issued so far, so the same request
  may be answered differently at different times. A failing call is a thrown error;
  \<^verbatim>\<open>axios\<close> rejects on a network error, a timeout and a non-2xx status alike, and resolves
  to a response whose \<^verbatim>\<open>data\<close> is the body.
\<close>

record env =
  API_URL :: "string option"
  axios_get :: "event list \<Rightarrow> string \<Rightarrow> js_error + jsval"
  axios_post :: "event list \<Rightarrow> string \<Rightarrow> jsval \<Rightarrow> js_error + jsval"
  generateContent :: "event list \<Rightarrow> generate_request \<Rightarrow> js_error + generate_response"
  chats_update :: "event list \<Rightarrow> string \<Rightarrow> js_error option"
  chats_add :: "event list \<Rightarrow> chat_doc \<Rightarrow> js_error option"
  Date_now :: "event list \<Rightarrow> nat"

text \<open>
  \<^verbatim>\<open>`${API_URL}`\<close>: the variable is read from the process environment, so it is a string,
  or \<^verbatim>\<open>undefined\<close> when unset.
\<close>

definition API_URL_string :: "env \<Rightarrow> string" where
  "API_URL_string e = (case API_URL e of None \<Rightarrow> ''undefined'' | Some url \<Rightarrow> url)"

section \<open>Tool executor\<close>

text \<open>
  The body of the \<^verbatim>\<open>try\<close> in \<^verbatim>\<open>executeTool\<close>: the value returned or the error thrown,
  with the calls issued on the way. \<open>hist\<close> is what was issued before.
\<close>

definition executeTool_try ::
  "env \<Rightarrow> event list \<Rightarrow> jsval \<Rightarrow> jsval \<Rightarrow> (js_error + jsval) \<times> event list" where
  "executeTool_try e hist name args =
     (if name = JStr ''check_tuition'' then
        (case get_prop args ''student_id'' of
           Inl err \<Rightarrow> (Inl err, [])
         | Inr sid \<Rightarrow>
             (case ToString sid of
                Inl err \<Rightarrow> (Inl err, [])
              | Inr s \<Rightarrow>
                  (let url = API_URL_string e @ ''/tuition/'' @ s
                   in (axios_get e hist url, [AxiosGet url]))))
      else if name = JStr ''pay_tuition'' then
        (case get_prop args ''student_id'' of
           Inl err \<Rightarrow> (Inl err, [])
         | Inr sid \<Rightarrow>
             (case get_prop args ''amount'' of
                Inl err \<Rightarrow> (Inl err, [])
              | Inr amt \<Rightarrow>
                  (let url = API_URL_string e @ ''/tuition/pay'';
                       body = JObj [(''student_id'', sid), (''amount'', amt)]
                   in (axios_post e hist url body, [AxiosPost url body]))))
      else (Inr (JObj [(''error'', JStr ''Unknown tool'')]), []))"

text \<open>
  \<^verbatim>\<open>executeTool\<close>. The template literal of its first statement converts \<^verbatim>\<open>name\<close> to a
  string outside the \<^verbatim>\<open>try\<close>: if that throws, the function throws and has issued
  nothing. Everything thrown inside the \<^verbatim>\<open>try\<close> is caught and returned as a payload (the
  \<^verbatim>\<open>catch\<close> converts \<^verbatim>\<open>name\<close> again, which succeeded before).
\<close>

definition executeTool ::
  "env \<Rightarrow> event list \<Rightarrow> jsval \<Rightarrow> jsval \<Rightarrow> (js_error + jsval) \<times> event list" where
  "executeTool e hist name args =
     (case ToString name of
        Inl err \<Rightarrow> (Inl err, [])
      | Inr _ \<Rightarrow>
          (case executeTool_try e hist name args of
             (Inr result, evs) \<Rightarrow> (Inr result, evs)
           | (Inl err, evs) \<Rightarrow>
               (Inr (JObj [(''error'', JStr (''API Call Failed: '' @ message err))]), evs)))"

section \<open>Message log bridge and conversation orchestrator\<close>

definition system_instruction :: string where
  "system_instruction =
     ''You are a helpful tuition assistant for a Tuition Centre. '' @ [CHR 0x0A] @
     ''            You can help check outstanding fees and process payments.'' @ [CHR 0x0A] @
     ''            ALWAYS ask for the '' @ [CHR 0x27] @ ''student_id'' @ [CHR 0x27] @
     '' if it is not provided before using a tool.'' @ [CHR 0x0A] @
     ''            Use the provided tools '' @ [CHR 0x27] @ ''check_tuition'' @ [CHR 0x27] @
     '' and '' @ [CHR 0x27] @ ''pay_tuition'' @ [CHR 0x27] @ '' when necessary.''"

definition model_id :: string where
  "model_id = ''gemini-2.5-flash-preview-09-2025''"

text \<open>The request of step 3: the user's text as the only turn, with the tool declarations.\<close>

definition first_request :: "jsval \<Rightarrow> generate_request" where
  "first_request text =
     \<lparr> model = model_id,
       contents = [\<lparr> turn_role = ''user'', turn_parts = [TextPart text] \<rparr>],
       config = \<lparr> systemInstruction = system_instruction,
                  tools = Some [checkTuitionTool, payTuitionTool] \<rparr> \<rparr>"

text \<open>The request that sends the tool outputs back: three turns, no tool declarations.\<close>

definition second_request :: "jsval \<Rightarrow> part list \<Rightarrow> request_part list \<Rightarrow> generate_request" where
  "second_request text ps toolOutputs =
     \<lparr> model = model_id,
       contents =
         [\<lparr> turn_role = ''user'', turn_parts = [TextPart text] \<rparr>,
          \<lparr> turn_role = ''model'', turn_parts = map ResponsePart ps \<rparr>,
          \<lparr> turn_role = ''function'', turn_parts = toolOutputs \<rparr>],
       config = \<lparr> systemInstruction = system_instruction, tools = None \<rparr> \<rparr>"

text \<open>
  The loop \<^verbatim>\<open>for (const call of functionCalls)\<close>: each call is awaited before the next
  starts, and its output is pushed onto \<^verbatim>\<open>toolOutputs\<close>. An executor run that throws ends
  the loop.
\<close>

fun run_tools ::
  "env \<Rightarrow> event list \<Rightarrow> function_call list \<Rightarrow> (js_error + request_part list) \<times> event list" where
  "run_tools e hist [] = (Inr [], [])"
| "run_tools e hist (c # cs) =
     (case executeTool e hist (call_name c) (call_args c) of
        (Inl err, evs) \<Rightarrow> (Inl err, evs)
      | (Inr result, evs) \<Rightarrow>
          (case run_tools e (hist @ evs) cs of
             (Inl err, evs') \<Rightarrow> (Inl err, evs @ evs')
           | (Inr outs, evs') \<Rightarrow>
               (Inr (FunctionResponsePart \<lparr> fr_name = call_name c, fr_result = result \<rparr> # outs),
                evs @ evs')))"

text \<open>
  The condition \<^verbatim>\<open>candidates && candidates[0].content && candidates[0].content.parts\<close>:
  \<open>Inr (Some ps)\<close> when it holds, \<open>Inr None\<close> when it is falsy, and the TypeError of
  reading \<^verbatim>\<open>content\<close> from \<^verbatim>\<open>undefined\<close> when \<^verbatim>\<open>candidates\<close> is an empty array (which is
  truthy).
\<close>

definition response_parts :: "generate_response \<Rightarrow> js_error + part list option" where
  "response_parts resp =
     (case candidates resp of
        None \<Rightarrow> Inr None
      | Some [] \<Rightarrow>
          (case get_prop JUndefined ''content'' of Inl err \<Rightarrow> Inl err | Inr _ \<Rightarrow> Inr None)
      | Some (c # _) \<Rightarrow>
          (case candidate_content c of
             None \<Rightarrow> Inr None
           | Some ct \<Rightarrow> Inr (content_parts ct)))"

text \<open>
  Step 4, the value of \<^verbatim>\<open>finalResponseText\<close> (\<open>None\<close> is \<^verbatim>\<open>undefined\<close>) or the error
  thrown, with the calls issued. \<open>resp\<close> is the first response.
\<close>

definition final_response_text ::
  "env \<Rightarrow> event list \<Rightarrow> jsval \<Rightarrow> generate_response \<Rightarrow> (js_error + string option) \<times> event list" where
  "final_response_text e hist text resp =
     (case response_parts resp of
        Inl err \<Rightarrow> (Inl err, [])
      | Inr None \<Rightarrow> (Inr (Some []), [])
      | Inr (Some ps) \<Rightarrow>
          (let functionCalls = map (the \<circ> functionCall) (filter (\<lambda>p. functionCall p \<noteq> None) ps)
           in if length functionCalls > 0 then
                (case run_tools e hist functionCalls of
                   (Inl err, evs) \<Rightarrow> (Inl err, evs)
                 | (Inr toolOutputs, evs) \<Rightarrow>
                     (let req = second_request text ps toolOutputs
                      in (case generateContent e (hist @ evs) req of
                            Inl err \<Rightarrow> (Inl err, evs @ [GenerateContent req])
                          | Inr secondResponse \<Rightarrow>
                              (Inr (response_text secondResponse), evs @ [GenerateContent req]))))
              else (Inr (response_text resp), [])))"

text \<open>Step 5: the reply is written only when \<^verbatim>\<open>finalResponseText\<close> is truthy.\<close>

definition reply_doc :: "string \<Rightarrow> nat \<Rightarrow> string \<Rightarrow> chat_doc" where
  "reply_doc finalResponseText now docId =
     \<lparr> doc_text = finalResponseText, doc_role = ''model'', createdAt = ClientDate now,
       relatedToMessageId = Some docId \<rparr>"

definition write_response ::
  "env \<Rightarrow> event list \<Rightarrow> string \<Rightarrow> string option \<Rightarrow> (js_error + unit) \<times> event list" where
  "write_response e hist docId final =
     (case final of
        None \<Rightarrow> (Inr (), [])
      | Some finalResponseText \<Rightarrow>
          if finalResponseText \<noteq> [] then
            (let doc = reply_doc finalResponseText (Date_now e hist) docId
             in (case chats_add e hist doc of
                   Some err \<Rightarrow> (Inl err, [ChatsAdd doc])
                 | None \<Rightarrow> (Inr (), [ChatsAdd doc])))
          else (Inr (), []))"

text \<open>The body of the \<^verbatim>\<open>try\<close> of the listener, steps 2 to 5.\<close>

definition try_block ::
  "env \<Rightarrow> event list \<Rightarrow> jsval \<Rightarrow> string \<Rightarrow> (js_error + unit) \<times> event list" where
  "try_block e hist text docId =
     (let req = first_request text
      in (case generateContent e hist req of
            Inl err \<Rightarrow> (Inl err, [GenerateContent req])
          | Inr modelResponse \<Rightarrow>
              (case final_response_text e (hist @ [GenerateContent req]) text modelResponse of
                 (Inl err, evs) \<Rightarrow> (Inl err, GenerateContent req # evs)
               | (Inr final, evs) \<Rightarrow>
                   (case write_response e (hist @ GenerateContent req # evs) docId final of
                      (r, evs') \<Rightarrow> (r, GenerateContent req # evs @ evs')))))"

definition fallback_text :: string where
  "fallback_text =
     ''I'' @ [CHR 0x27] @ ''m sorry, I encountered an error processing your request.''"

definition fallback_doc :: "nat \<Rightarrow> chat_doc" where
  "fallback_doc now =
     \<lparr> doc_text = fallback_text, doc_role = ''model'', createdAt = ClientDate now,
       relatedToMessageId = None \<rparr>"

text \<open>
  One element of \<^verbatim>\<open>snapshot.docChanges()\<close>: \<^verbatim>\<open>change.type\<close>, \<^verbatim>\<open>change.doc.id\<close> and the
  fields of \<^verbatim>\<open>change.doc.data()\<close>.
\<close>

record doc_change =
  change_type :: string
  change_doc_id :: string
  change_doc_data :: "(string \<times> jsval) list"

definition field :: "(string \<times> jsval) list \<Rightarrow> string \<Rightarrow> jsval" where
  "field messageData k = (case map_of messageData k of None \<Rightarrow> JUndefined | Some v \<Rightarrow> v)"

text \<open>How the promise of the \<^verbatim>\<open>async\<close> callback settles.\<close>

datatype outcome = Resolved | Rejected js_error

text \<open>
  The callback passed to \<^verbatim>\<open>forEach\<close> in \<^verbatim>\<open>setupFirestoreListener\<close>, for one change. For
  a qualifying entry its first statement is a template literal that converts
  \<^verbatim>\<open>messageData.text\<close> to a string; it stands outside the \<^verbatim>\<open>try\<close>, so a conversion that
  throws rejects the promise before anything is issued. The update of \<^verbatim>\<open>processed\<close> is
  awaited outside the \<^verbatim>\<open>try\<close>; so is the write in the \<^verbatim>\<open>catch\<close>. The result is the calls this one invocation issues, in order; how the
  invocations for several changes interleave is not modelled.
\<close>

definition on_change :: "env \<Rightarrow> event list \<Rightarrow> doc_change \<Rightarrow> outcome \<times> event list" where
  "on_change e hist change =
     (if change_type change = ''added'' then
        (let messageData = change_doc_data change; docId = change_doc_id change
         in if field messageData ''role'' = JStr ''user'' \<and> \<not> truthy (field messageData ''processed'')
            then
              (case ToString (field messageData ''text'') of
                 Inl err \<Rightarrow> (Rejected err, [])
               | Inr _ \<Rightarrow>
              (case chats_update e hist docId of
                 Some err \<Rightarrow> (Rejected err, [ChatsUpdateProcessed docId])
               | None \<Rightarrow>
                   (case try_block e (hist @ [ChatsUpdateProcessed docId])
                           (field messageData ''text'') docId of
                      (Inr _, evs) \<Rightarrow> (Resolved, ChatsUpdateProcessed docId # evs)
                    | (Inl err, evs) \<Rightarrow>
                        (let doc = fallback_doc
                                     (Date_now e (hist @ ChatsUpdateProcessed docId # evs))
                         in (case chats_add e (hist @ ChatsUpdateProcessed docId # evs) doc of
                               Some err' \<Rightarrow>
                                 (Rejected err', ChatsUpdateProcessed docId # evs @ [ChatsAdd doc])
                             | None \<Rightarrow>
                                 (Resolved, ChatsUpdateProcessed docId # evs @ [ChatsAdd doc]))))))
            else (Resolved, []))
      else (Resolved, []))"

section \<open>Sequential execution of the requested calls\<close>


section \<open>Example collaborators\<close>

text \<open>
  A scripted world for concrete runs: the model service answers a one-turn request with
  \<open>first\<close> and any other request with \<open>second\<close>; the tuition backend answers every
  call with \<open>backend\<close>; the log accepts every write; the process clock reads 1000 plus
  the number of calls issued so far.
\<close>

definition scripted_env ::
  "(js_error + generate_response) \<Rightarrow> (js_error + generate_response) \<Rightarrow> (js_error + jsval) \<Rightarrow> env" where
  "scripted_env first second backend =
     \<lparr> API_URL = Some ''http://api'',
       axios_get = (\<lambda>hist url. backend),
       axios_post = (\<lambda>hist url body. backend),
       generateContent = (\<lambda>hist req. if length (contents req) = 1 then first else second),
       chats_update = (\<lambda>hist docId. None),
       chats_add = (\<lambda>hist doc. None),
       Date_now = (\<lambda>hist. 1000 + length hist) \<rparr>"

definition text_response :: "string \<Rightarrow> generate_response" where
  "text_response t =
     \<lparr> candidates =
         Some [\<lparr> candidate_content =
                   Some \<lparr> content_parts = Some [\<lparr> part_text = Some t, functionCall = None \<rparr>] \<rparr> \<rparr>],
       response_text = Some t \<rparr>"

definition call_response :: "function_call list \<Rightarrow> generate_response" where
  "call_response calls =
     \<lparr> candidates =
         Some [\<lparr> candidate_content =
                   Some \<lparr> content_parts =
                            Some (map (\<lambda>c. \<lparr> part_text = None, functionCall = Some c \<rparr>) calls) \<rparr> \<rparr>],
       response_text = None \<rparr>"

definition user_change :: "string \<Rightarrow> string \<Rightarrow> doc_change" where
  "user_change docId t =
     \<lparr> change_type = ''added'', change_doc_id = docId,
       change_doc_data = [(''text'', JStr t), (''role'', JStr ''user''), (''processed'', JBool False)] \<rparr>"

section \<open>Properties\<close>

subsection \<open>The tool executor\<close>

lemma executeTool_events:
  "ev \<in> set (snd (executeTool e hist name args)) \<Longrightarrow>
     (\<exists>url. ev = AxiosGet url) \<or> (\<exists>url body. ev = AxiosPost url body)"
  by (auto simp: executeTool_def executeTool_try_def Let_def split: if_splits sum.splits)

lemma executeTool_check:
  "ToString (field kvs ''student_id'') = Inr sid \<Longrightarrow>
   executeTool e hist (JStr ''check_tuition'') (JObj kvs) =
     (Inr (case axios_get e hist (API_URL_string e @ ''/tuition/'' @ sid) of
             Inl err \<Rightarrow> JObj [(''error'', JStr (''API Call Failed: '' @ message err))]
           | Inr data \<Rightarrow> data),
      [AxiosGet (API_URL_string e @ ''/tuition/'' @ sid)])"
  by (simp add: executeTool_def executeTool_try_def field_def Let_def split: sum.splits)

lemma executeTool_check_throws:
  "ToString (field kvs ''student_id'') = Inl err \<Longrightarrow>
   executeTool e hist (JStr ''check_tuition'') (JObj kvs) =
     (Inr (JObj [(''error'', JStr (''API Call Failed: '' @ message err))]), [])"
  by (simp add: executeTool_def executeTool_try_def field_def Let_def split: sum.splits)

lemma executeTool_pay:
  "executeTool e hist (JStr ''pay_tuition'') (JObj kvs) =
     (Inr (case axios_post e hist (API_URL_string e @ ''/tuition/pay'')
                  (JObj [(''student_id'', field kvs ''student_id''), (''amount'', field kvs ''amount'')]) of
             Inl err \<Rightarrow> JObj [(''error'', JStr (''API Call Failed: '' @ message err))]
           | Inr data \<Rightarrow> data),
      [AxiosPost (API_URL_string e @ ''/tuition/pay'')
         (JObj [(''student_id'', field kvs ''student_id''), (''amount'', field kvs ''amount'')])])"
  by (simp add: executeTool_def executeTool_try_def field_def Let_def split: sum.splits)




text \<open>
  Claim C10, as amended. The tool executor does not check the arguments against the
  \<^verbatim>\<open>required\<close> lists of the tool declarations. For every argument object, \<^verbatim>\<open>pay_tuition\<close>
  issues its POST, an absent field being sent as \<^verbatim>\<open>undefined\<close>; \<^verbatim>\<open>check_tuition\<close> issues
  its GET whenever the value of \<^verbatim>\<open>student_id\<close> (\<^verbatim>\<open>undefined\<close> when absent) converts to a
  string, with that string as the path segment. With a required field of
  \<^verbatim>\<open>check_tuition\<close> absent, the GET goes to the path segment \<^verbatim>\<open>undefined\<close>.
\<close>

theorem executeTool_no_argument_validation:
  "(ToString (field kvs ''student_id'') = Inr sid \<longrightarrow>
      snd (executeTool e hist (JStr (tool_name checkTuitionTool)) (JObj kvs)) =
        [AxiosGet (API_URL_string e @ ''/tuition/'' @ sid)])
   \<and> snd (executeTool e hist (JStr (tool_name payTuitionTool)) (JObj kvs)) =
     [AxiosPost (API_URL_string e @ ''/tuition/pay'')
        (JObj [(''student_id'', field kvs ''student_id''), (''amount'', field kvs ''amount'')])]
   \<and> ((\<exists>k \<in> set (required (parameters checkTuitionTool)). map_of kvs k = None) \<longrightarrow>
        snd (executeTool e hist (JStr (tool_name checkTuitionTool)) (JObj kvs)) =
          [AxiosGet (API_URL_string e @ ''/tuition/undefined'')])"
proof -
  have "map_of kvs ''student_id'' = None \<Longrightarrow> ToString (field kvs ''student_id'') = Inr ''undefined''"
    by (simp add: field_def)
  then show ?thesis
    by (auto simp: executeTool_check executeTool_pay checkTuitionTool_def payTuitionTool_def)
qed

theorem executeTool_no_argument_validation_witness:
  "ToString (field [(''amount'', JNum ''5'')] ''student_id'') = Inr ''undefined''
   \<and> (\<exists>k \<in> set (required (parameters checkTuitionTool)). map_of [(''amount'', JNum ''5'')] k = None)
   \<and> snd (executeTool (scripted_env (Inl (JsError ''down'')) (Inl (JsError ''down'')) (Inr JNull)) []
            (JStr ''check_tuition'') (JObj [(''amount'', JNum ''5'')]))
     = [AxiosGet ''http://api/tuition/undefined'']"
  using executeTool_no_argument_validation
          [of "[(''amount'', JNum ''5'')]" "''undefined''"
              "scripted_env (Inl (JsError ''down'')) (Inl (JsError ''down'')) (Inr JNull)" "[]"]
  by (simp add: checkTuitionTool_def scripted_env_def field_def API_URL_string_def)

text \<open>
  Claim C10 as stated fails for an argument object whose \<^verbatim>\<open>student_id\<close> is an object with
  its own \<^verbatim>\<open>toString\<close> key: building the URL throws inside the \<^verbatim>\<open>try\<close>, and
  \<^verbatim>\<open>check_tuition\<close> returns an error payload without issuing any request.
\<close>

theorem unconvertible_student_id_counterexample:
  "executeTool (scripted_env (Inl (JsError ''down'')) (Inl (JsError ''down'')) (Inr JNull)) []
     (JStr ''check_tuition'') (JObj [(''student_id'', JObj [(''toString'', JStr ''x'')])])
   = (Inr (JObj [(''error'', JStr ''API Call Failed: Cannot convert object to primitive value'')]), [])"
  by (simp add: executeTool_def executeTool_try_def)


subsection \<open>The loop over the requested calls\<close>


lemma run_tools_events:
  "ev \<in> set (snd (run_tools e hist cs)) \<Longrightarrow>
     (\<exists>url. ev = AxiosGet url) \<or> (\<exists>url body. ev = AxiosPost url body)"
proof (induction cs arbitrary: hist)
  case Nil
  then show ?case by simp
next
  case (Cons c cs)
  obtain r evs where x: "executeTool e hist (call_name c) (call_args c) = (r, evs)"
    by (cases "executeTool e hist (call_name c) (call_args c)")
  obtain r' evs' where y: "run_tools e (hist @ evs) cs = (r', evs')"
    by (cases "run_tools e (hist @ evs) cs")
  from Cons.prems x y have "ev \<in> set evs \<or> ev \<in> set evs'"
    by (auto split: sum.splits)
  then show ?case
  proof
    assume "ev \<in> set evs"
    with x executeTool_events [of ev e hist "call_name c" "call_args c"] show ?thesis by simp
  next
    assume "ev \<in> set evs'"
    with y Cons.IH [of "hist @ evs"] show ?thesis by simp
  qed
qed







subsection \<open>The final response text\<close>

lemma final_response_text_parts:
  assumes "response_parts resp = Inr (Some ps)"
    and "calls = map (the \<circ> functionCall) (filter (\<lambda>p. functionCall p \<noteq> None) ps)"
  shows "final_response_text e hist text resp =
          (if length calls > 0 then
             (case run_tools e hist calls of
                (Inl err, evs) \<Rightarrow> (Inl err, evs)
              | (Inr toolOutputs, evs) \<Rightarrow>
                  (case generateContent e (hist @ evs) (second_request text ps toolOutputs) of
                     Inl err \<Rightarrow> (Inl err, evs @ [GenerateContent (second_request text ps toolOutputs)])
                   | Inr secondResponse \<Rightarrow>
                       (Inr (response_text secondResponse),
                        evs @ [GenerateContent (second_request text ps toolOutputs)])))
           else (Inr (response_text resp), []))"
  by (simp only: final_response_text_def assms(1) sum.case option.case Let_def
        assms(2) [symmetric])

lemma final_response_text_tools:
  assumes "response_parts resp = Inr (Some ps)"
    and "calls = map (the \<circ> functionCall) (filter (\<lambda>p. functionCall p \<noteq> None) ps)"
    and "calls \<noteq> []"
    and "fst (run_tools e hist calls) = Inr outs"
  shows "final_response_text e hist text resp =
           (case generateContent e (hist @ snd (run_tools e hist calls))
                   (second_request text ps outs) of
              Inl err \<Rightarrow> Inl err
            | Inr secondResponse \<Rightarrow> Inr (response_text secondResponse),
            snd (run_tools e hist calls) @ [GenerateContent (second_request text ps outs)])"
proof -
  from assms(4) obtain evs where r: "run_tools e hist calls = (Inr outs, evs)"
    by (cases "run_tools e hist calls") simp
  from final_response_text_parts [OF assms(1,2), of e hist "text"] assms(3) r
  show ?thesis by (simp split: sum.splits)
qed

lemma final_response_text_tools_throw:
  assumes "response_parts resp = Inr (Some ps)"
    and "calls = map (the \<circ> functionCall) (filter (\<lambda>p. functionCall p \<noteq> None) ps)"
    and "calls \<noteq> []"
    and "fst (run_tools e hist calls) = Inl err"
  shows "final_response_text e hist text resp = (Inl err, snd (run_tools e hist calls))"
proof -
  from assms(4) obtain evs where r: "run_tools e hist calls = (Inl err, evs)"
    by (cases "run_tools e hist calls") simp
  from final_response_text_parts [OF assms(1,2), of e hist "text"] assms(3) r
  show ?thesis by simp
qed

lemma final_response_text_no_tools:
  assumes "response_parts resp = Inr (Some ps)"
    and "map (the \<circ> functionCall) (filter (\<lambda>p. functionCall p \<noteq> None) ps) = []"
  shows "final_response_text e hist text resp = (Inr (response_text resp), [])"
  using assms by (simp add: final_response_text_def Let_def)

lemma final_response_text_no_parts:
  "response_parts resp = Inr None \<Longrightarrow>
   final_response_text e hist text resp = (Inr (Some []), [])"
  by (simp add: final_response_text_def)

lemma final_response_text_throws:
  "response_parts resp = Inl err \<Longrightarrow>
   final_response_text e hist text resp = (Inl err, [])"
  by (simp add: final_response_text_def)

lemma final_response_text_events:
  assumes "ev \<in> set (snd (final_response_text e hist text resp))"
  shows "(\<exists>url. ev = AxiosGet url) \<or> (\<exists>url body. ev = AxiosPost url body)
     \<or> (\<exists>req. ev = GenerateContent req)"
proof (cases "response_parts resp")
  case (Inl err)
  with assms show ?thesis by (simp add: final_response_text_throws)
next
  case (Inr r)
  show ?thesis
  proof (cases r)
    case None
    with Inr assms show ?thesis by (simp add: final_response_text_no_parts)
  next
    case (Some ps)
    define calls where "calls = map (the \<circ> functionCall) (filter (\<lambda>p. functionCall p \<noteq> None) ps)"
    from Inr Some have rp: "response_parts resp = Inr (Some ps)" by simp
    show ?thesis
    proof (cases "calls = []")
      case True
      with rp assms calls_def show ?thesis
        by (simp add: final_response_text_no_tools)
    next
      case False
      show ?thesis
      proof (cases "fst (run_tools e hist calls)")
        case (Inl err)
        from assms final_response_text_tools_throw [OF rp calls_def False Inl, of "text"]
        have "ev \<in> set (snd (run_tools e hist calls))" by simp
        then show ?thesis using run_tools_events by blast
      next
        case (Inr outs)
        from assms final_response_text_tools [OF rp calls_def False Inr, of "text"]
        have "ev \<in> set (snd (run_tools e hist calls))
            \<or> ev = GenerateContent (second_request text ps outs)"
          by auto
        then show ?thesis using run_tools_events by blast
      qed
    qed
  qed
qed

lemma final_response_text_no_add:
  "final_response_text e hist text resp = (r, evs) \<Longrightarrow> ChatsAdd d \<notin> set evs"
  using final_response_text_events [of "ChatsAdd d" e hist "text" resp] by auto




subsection \<open>The handler of one change\<close>

lemma try_block_adds:
  "ChatsAdd d \<in> set (snd (try_block e hist text docId)) \<Longrightarrow> relatedToMessageId d = Some docId"
  by (auto simp: try_block_def write_response_def reply_doc_def Let_def
           dest: final_response_text_no_add
           split: sum.splits option.splits if_splits prod.splits)

lemma try_block_model_call_fails:
  "generateContent e hist (first_request text) = Inl err \<Longrightarrow>
   try_block e hist text docId = (Inl err, [GenerateContent (first_request text)])"
  by (simp add: try_block_def Let_def)

lemma on_change_qualifying:
  assumes "change_type change = ''added''"
    and "field (change_doc_data change) ''role'' = JStr ''user''"
    and "\<not> truthy (field (change_doc_data change) ''processed'')"
    and "field (change_doc_data change) ''text'' = JStr t"
    and "chats_update e hist (change_doc_id change) = None"
    and "generateContent e (hist @ [ChatsUpdateProcessed (change_doc_id change)])
           (first_request (JStr t)) = Inr resp"
    and "final_response_text e
           (hist @ [ChatsUpdateProcessed (change_doc_id change),
                    GenerateContent (first_request (JStr t))])
           (JStr t) resp = (Inr final, evs)"
  shows "on_change e hist change =
     (case write_response e
             (hist @ ChatsUpdateProcessed (change_doc_id change)
                # GenerateContent (first_request (JStr t)) # evs)
             (change_doc_id change) final of
        (Inr u, evs') \<Rightarrow>
          (Resolved,
           ChatsUpdateProcessed (change_doc_id change)
             # GenerateContent (first_request (JStr t)) # evs @ evs')
      | (Inl err, evs') \<Rightarrow>
          (case chats_add e
                  (hist @ ChatsUpdateProcessed (change_doc_id change)
                     # GenerateContent (first_request (JStr t)) # evs @ evs')
                  (fallback_doc (Date_now e
                     (hist @ ChatsUpdateProcessed (change_doc_id change)
                        # GenerateContent (first_request (JStr t)) # evs @ evs'))) of
             None \<Rightarrow> Resolved | Some err' \<Rightarrow> Rejected err',
           ChatsUpdateProcessed (change_doc_id change)
             # GenerateContent (first_request (JStr t)) # evs @ evs'
             @ [ChatsAdd (fallback_doc (Date_now e
                  (hist @ ChatsUpdateProcessed (change_doc_id change)
                     # GenerateContent (first_request (JStr t)) # evs @ evs')))]))"
  using assms
  by (simp add: on_change_def try_block_def Let_def split: prod.splits sum.splits option.splits)

lemma on_change_text_throws:
  assumes "change_type change = ''added''"
    and "field (change_doc_data change) ''role'' = JStr ''user''"
    and "\<not> truthy (field (change_doc_data change) ''processed'')"
    and "ToString (field (change_doc_data change) ''text'') = Inl err"
  shows "on_change e hist change = (Rejected err, [])"
  using assms by (simp add: on_change_def Let_def)

lemma on_change_text_run:
  "on_change (scripted_env (Inr (text_response ''Hello'')) (Inl (JsError ''down'')) (Inr JNull)) []
     (user_change ''m1'' ''hi'')
   = (Resolved,
      [ChatsUpdateProcessed ''m1'', GenerateContent (first_request (JStr ''hi'')),
       ChatsAdd (reply_doc ''Hello'' 1002 ''m1'')])"
  by (simp add: on_change_def try_block_def final_response_text_def write_response_def
        response_parts_def scripted_env_def text_response_def user_change_def field_def
        first_request_def Let_def)

text \<open>
  Claim C1. Whenever handling a change issues a model call, the change is of type
  \<^verbatim>\<open>'added'\<close>, the entry's role is \<^verbatim>\<open>'user'\<close> and its \<^verbatim>\<open>processed\<close> field is falsy; and the
  write of \<^verbatim>\<open>processed: true\<close> to that entry was issued first and completed without
  error before the model call.
\<close>

theorem model_call_only_after_processed_flip:
  "GenerateContent req \<in> set (snd (on_change e hist change)) \<Longrightarrow>
   change_type change = ''added''
   \<and> field (change_doc_data change) ''role'' = JStr ''user''
   \<and> \<not> truthy (field (change_doc_data change) ''processed'')
   \<and> chats_update e hist (change_doc_id change) = None
   \<and> (\<exists>evs. snd (on_change e hist change) = ChatsUpdateProcessed (change_doc_id change) # evs
          \<and> GenerateContent req \<in> set evs)"
  by (auto simp: on_change_def Let_def split: if_splits option.splits prod.splits sum.splits)

theorem model_call_only_after_processed_flip_witness:
  "GenerateContent (first_request (JStr ''hi''))
     \<in> set (snd (on_change (scripted_env (Inr (text_response ''Hello'')) (Inl (JsError ''down'')) (Inr JNull))
                   [] (user_change ''m1'' ''hi'')))
   \<and> change_type (user_change ''m1'' ''hi'') = ''added''
   \<and> field (change_doc_data (user_change ''m1'' ''hi'')) ''role'' = JStr ''user''
   \<and> \<not> truthy (field (change_doc_data (user_change ''m1'' ''hi'')) ''processed'')
   \<and> chats_update (scripted_env (Inr (text_response ''Hello'')) (Inl (JsError ''down'')) (Inr JNull))
         [] (change_doc_id (user_change ''m1'' ''hi'')) = None"
proof -
  have h: "GenerateContent (first_request (JStr ''hi''))
     \<in> set (snd (on_change (scripted_env (Inr (text_response ''Hello'')) (Inl (JsError ''down'')) (Inr JNull))
                   [] (user_change ''m1'' ''hi'')))"
    by (simp add: on_change_text_run)
  from model_call_only_after_processed_flip [OF h] h show ?thesis by blast
qed

text \<open>
  Claim C4. If the \<^verbatim>\<open>try\<close> block of a qualifying entry (whose text is a string) throws (a
  failing model call, an executor run that throws, or any other step after the flip of
  \<^verbatim>\<open>processed\<close>), the handler issues, as its last call, one write of the fixed apology
  entry; it is the only entry written without \<^verbatim>\<open>relatedToMessageId\<close>. The promise resolves
  when the log accepts that write and rejects otherwise.
\<close>

theorem exception_yields_single_fallback:
  assumes "change_type change = ''added''"
    and "field (change_doc_data change) ''role'' = JStr ''user''"
    and "\<not> truthy (field (change_doc_data change) ''processed'')"
    and "field (change_doc_data change) ''text'' = JStr t"
    and "chats_update e hist (change_doc_id change) = None"
    and "try_block e (hist @ [ChatsUpdateProcessed (change_doc_id change)])
           (JStr t) (change_doc_id change) = (Inl err, evs)"
    and "now = Date_now e (hist @ ChatsUpdateProcessed (change_doc_id change) # evs)"
  shows "snd (on_change e hist change) =
           ChatsUpdateProcessed (change_doc_id change) # evs @ [ChatsAdd (fallback_doc now)]
       \<and> filter (\<lambda>ev. \<exists>d. ev = ChatsAdd d \<and> relatedToMessageId d = None) (snd (on_change e hist change))
           = [ChatsAdd (fallback_doc now)]
       \<and> doc_text (fallback_doc now) =
           ''I'' @ [CHR 0x27] @ ''m sorry, I encountered an error processing your request.''
       \<and> doc_role (fallback_doc now) = ''model''
       \<and> relatedToMessageId (fallback_doc now) = None
       \<and> fst (on_change e hist change) =
           (case chats_add e (hist @ ChatsUpdateProcessed (change_doc_id change) # evs)
                   (fallback_doc now) of
              None \<Rightarrow> Resolved | Some err' \<Rightarrow> Rejected err')"
proof -
  have tr: "snd (on_change e hist change) =
           ChatsUpdateProcessed (change_doc_id change) # evs @ [ChatsAdd (fallback_doc now)]"
    using assms by (simp add: on_change_def Let_def split: option.splits)
  have "\<And>ev. ev \<in> set evs \<Longrightarrow> \<not> (\<exists>d. ev = ChatsAdd d \<and> relatedToMessageId d = None)"
    using try_block_adds [of _ e "hist @ [ChatsUpdateProcessed (change_doc_id change)]"
            "JStr t" "change_doc_id change"] assms(6)
    by auto
  then have "filter (\<lambda>ev. \<exists>d. ev = ChatsAdd d \<and> relatedToMessageId d = None) evs = []"
    by (simp add: filter_empty_conv)
  then have one: "filter (\<lambda>ev. \<exists>d. ev = ChatsAdd d \<and> relatedToMessageId d = None)
                    (snd (on_change e hist change)) = [ChatsAdd (fallback_doc now)]"
    unfolding tr by (simp add: fallback_doc_def)
  have out: "fst (on_change e hist change) =
           (case chats_add e (hist @ ChatsUpdateProcessed (change_doc_id change) # evs)
                   (fallback_doc now) of
              None \<Rightarrow> Resolved | Some err' \<Rightarrow> Rejected err')"
    using assms by (simp add: on_change_def Let_def split: option.splits)
  show ?thesis using tr one out by (simp add: fallback_doc_def fallback_text_def)
qed

text \<open>
  The run below is one where the executor throws: the model asks for a call whose name is
  an object with its own \<^verbatim>\<open>toString\<close> key.
\<close>

theorem exception_yields_single_fallback_witness:
  "try_block (scripted_env
                (Inr (call_response [\<lparr> call_name = JObj [(''toString'', JNum ''1'')],
                                        call_args = JObj [] \<rparr>]))
                (Inl (JsError ''down'')) (Inr JNull))
     [ChatsUpdateProcessed ''m1''] (JStr ''hi'') ''m1''
     = (Inl (JsError ''Cannot convert object to primitive value''),
        [GenerateContent (first_request (JStr ''hi''))])
   \<and> snd (on_change (scripted_env
                (Inr (call_response [\<lparr> call_name = JObj [(''toString'', JNum ''1'')],
                                        call_args = JObj [] \<rparr>]))
                (Inl (JsError ''down'')) (Inr JNull)) []
            (user_change ''m1'' ''hi''))
     = [ChatsUpdateProcessed ''m1'', GenerateContent (first_request (JStr ''hi'')),
        ChatsAdd (fallback_doc 1002)]
   \<and> fst (on_change (scripted_env
                (Inr (call_response [\<lparr> call_name = JObj [(''toString'', JNum ''1'')],
                                        call_args = JObj [] \<rparr>]))
                (Inl (JsError ''down'')) (Inr JNull)) []
            (user_change ''m1'' ''hi'')) = Resolved"
proof -
  let ?E = "scripted_env
                (Inr (call_response [\<lparr> call_name = JObj [(''toString'', JNum ''1'')],
                                        call_args = JObj [] \<rparr>]))
                (Inl (JsError ''down'')) (Inr JNull)"
  let ?C = "user_change ''m1'' ''hi''"
  have a: "change_type ?C = ''added''" by (simp add: user_change_def)
  have b: "field (change_doc_data ?C) ''role'' = JStr ''user''"
    by (simp add: user_change_def field_def)
  have c: "\<not> truthy (field (change_doc_data ?C) ''processed'')"
    by (simp add: user_change_def field_def)
  have tx: "field (change_doc_data ?C) ''text'' = JStr ''hi''"
    by (simp add: user_change_def field_def)
  have d: "chats_update ?E [] (change_doc_id ?C) = None" by (simp add: scripted_env_def)
  have t: "try_block ?E [ChatsUpdateProcessed ''m1''] (JStr ''hi'') ''m1''
             = (Inl (JsError ''Cannot convert object to primitive value''),
                [GenerateContent (first_request (JStr ''hi''))])"
    by (simp add: try_block_def final_response_text_def response_parts_def call_response_def
          executeTool_def scripted_env_def first_request_def Let_def)
  have t': "try_block ?E ([] @ [ChatsUpdateProcessed (change_doc_id ?C)])
              (JStr ''hi'') (change_doc_id ?C)
             = (Inl (JsError ''Cannot convert object to primitive value''),
                [GenerateContent (first_request (JStr ''hi''))])"
    using t by (simp add: user_change_def)
  have n: "1002 = Date_now ?E ([] @ ChatsUpdateProcessed (change_doc_id ?C)
                                 # [GenerateContent (first_request (JStr ''hi''))])"
    by (simp add: scripted_env_def)
  from exception_yields_single_fallback [OF a b c tx d t' n] t show ?thesis
    by (simp add: user_change_def scripted_env_def)
qed


text \<open>
  Claim C9. If the final reply text computed for a qualifying entry (whose text is a
  string) is falsy, that is the empty string or \<^verbatim>\<open>undefined\<close>, the handler resolves without
  writing any entry to the log: neither a reply nor the apology.
\<close>

theorem falsy_final_text_no_reply:
  assumes "change_type change = ''added''"
    and "field (change_doc_data change) ''role'' = JStr ''user''"
    and "\<not> truthy (field (change_doc_data change) ''processed'')"
    and "field (change_doc_data change) ''text'' = JStr t"
    and "chats_update e hist (change_doc_id change) = None"
    and "generateContent e (hist @ [ChatsUpdateProcessed (change_doc_id change)])
           (first_request (JStr t)) = Inr resp"
    and "final_response_text e
           (hist @ [ChatsUpdateProcessed (change_doc_id change),
                    GenerateContent (first_request (JStr t))])
           (JStr t) resp = (Inr final, evs)"
    and "final = None \<or> final = Some []"
  shows "on_change e hist change =
           (Resolved,
            ChatsUpdateProcessed (change_doc_id change)
              # GenerateContent (first_request (JStr t)) # evs)
       \<and> (\<forall>d. ChatsAdd d \<notin> set (snd (on_change e hist change)))"
proof -
  have w: "write_response e h (change_doc_id change) final = (Inr (), [])" for h
    using assms(8) by (auto simp: write_response_def)
  have run: "on_change e hist change =
           (Resolved,
            ChatsUpdateProcessed (change_doc_id change)
              # GenerateContent (first_request (JStr t)) # evs)"
    using on_change_qualifying [OF assms(1-7)] by (simp add: w)
  have "ChatsAdd d \<notin> set evs" for d
    using assms(7) by (rule final_response_text_no_add)
  with run show ?thesis by simp
qed

theorem falsy_final_text_no_reply_witness:
  "final_response_text (scripted_env (Inr (text_response [])) (Inl (JsError ''down'')) (Inr JNull))
     [ChatsUpdateProcessed ''m1'', GenerateContent (first_request (JStr ''hi''))]
     (JStr ''hi'') (text_response []) = (Inr (Some []), [])
   \<and> on_change (scripted_env (Inr (text_response [])) (Inl (JsError ''down'')) (Inr JNull)) []
       (user_change ''m1'' ''hi'')
     = (Resolved, [ChatsUpdateProcessed ''m1'', GenerateContent (first_request (JStr ''hi''))])"
proof -
  let ?E = "scripted_env (Inr (text_response [])) (Inl (JsError ''down'')) (Inr JNull)"
  let ?C = "user_change ''m1'' ''hi''"
  have a: "change_type ?C = ''added''" by (simp add: user_change_def)
  have b: "field (change_doc_data ?C) ''role'' = JStr ''user''"
    by (simp add: user_change_def field_def)
  have c: "\<not> truthy (field (change_doc_data ?C) ''processed'')"
    by (simp add: user_change_def field_def)
  have tx: "field (change_doc_data ?C) ''text'' = JStr ''hi''"
    by (simp add: user_change_def field_def)
  have d: "chats_update ?E [] (change_doc_id ?C) = None" by (simp add: scripted_env_def)
  have id: "change_doc_id ?C = ''m1''" by (simp add: user_change_def)
  have g: "generateContent ?E ([] @ [ChatsUpdateProcessed (change_doc_id ?C)])
             (first_request (JStr ''hi'')) = Inr (text_response [])"
    by (simp add: scripted_env_def first_request_def)
  have f: "final_response_text ?E
             [ChatsUpdateProcessed ''m1'', GenerateContent (first_request (JStr ''hi''))]
             (JStr ''hi'') (text_response []) = (Inr (Some []), [])"
    by (simp add: final_response_text_def response_parts_def text_response_def)
  have f': "final_response_text ?E
             ([] @ [ChatsUpdateProcessed (change_doc_id ?C),
                    GenerateContent (first_request (JStr ''hi''))])
             (JStr ''hi'') (text_response []) = (Inr (Some []), [])"
    using f by (simp add: id)
  have e: "Some [] = None \<or> Some [] = Some ([] :: string)" by simp
  from falsy_final_text_no_reply [OF a b c tx d g f' e] f show ?thesis
    by (simp add: id)
qed

text \<open>
  The three cases in which the condition on the content structure is falsy: the first
  response has no \<^verbatim>\<open>candidates\<close> field, or its first candidate has no \<^verbatim>\<open>content\<close>, or that
  content has no \<^verbatim>\<open>parts\<close>. The handler then resolves having written no entry at all.
\<close>

lemma no_content_structure_no_reply:
  assumes "change_type change = ''added''"
    and "field (change_doc_data change) ''role'' = JStr ''user''"
    and "\<not> truthy (field (change_doc_data change) ''processed'')"
    and "field (change_doc_data change) ''text'' = JStr t"
    and "chats_update e hist (change_doc_id change) = None"
    and "generateContent e (hist @ [ChatsUpdateProcessed (change_doc_id change)])
           (first_request (JStr t)) = Inr resp"
    and "candidates resp = None
         \<or> (\<exists>c cs. candidates resp = Some (c # cs)
               \<and> (candidate_content c = None
                    \<or> (\<exists>ct. candidate_content c = Some ct \<and> content_parts ct = None)))"
  shows "on_change e hist change =
           (Resolved,
            [ChatsUpdateProcessed (change_doc_id change),
             GenerateContent (first_request (JStr t))])"
proof -
  from assms(7) have "response_parts resp = Inr None"
    by (auto simp: response_parts_def)
  then have f: "final_response_text e h u resp = (Inr (Some []), [])" for h u
    by (rule final_response_text_no_parts)
  have w: "write_response e h (change_doc_id change) (Some []) = (Inr (), [])" for h
    by (simp add: write_response_def)
  show ?thesis
    using on_change_qualifying [OF assms(1-6) f] by (simp add: w)
qed

text \<open>
  Claim C5 does not hold of the code. For the user entry
  \<^verbatim>\<open>{text: 'hi', role: 'user', processed: false}\<close> and a first response whose \<^verbatim>\<open>candidates\<close>
  is the empty array, the response has no retrievable content, but the condition reads
  \<^verbatim>\<open>candidates[0].content\<close> from \<^verbatim>\<open>undefined\<close>: it throws, and the apology entry is written
  instead of nothing.
\<close>

theorem empty_candidates_writes_apology:
  "response_parts \<lparr> candidates = Some [], response_text = None \<rparr>
     = Inl (JsError (''Cannot read properties of undefined (reading ''
                      @ [CHR 0x27] @ ''content'' @ [CHR 0x27] @ '')''))
   \<and> on_change (scripted_env (Inr \<lparr> candidates = Some [], response_text = None \<rparr>)
                   (Inl (JsError ''down'')) (Inr JNull)) []
       (user_change ''m1'' ''hi'')
     = (Resolved,
        [ChatsUpdateProcessed ''m1'', GenerateContent (first_request (JStr ''hi'')),
         ChatsAdd \<lparr> doc_text = ''I'' @ [CHR 0x27]
                                @ ''m sorry, I encountered an error processing your request.'',
                    doc_role = ''model'', createdAt = ClientDate 1002,
                    relatedToMessageId = None \<rparr>])"
  by (simp add: on_change_def try_block_def final_response_text_def response_parts_def
        scripted_env_def user_change_def field_def first_request_def fallback_doc_def
        fallback_text_def Let_def)

text \<open>
  Claim C3, as amended. For every qualifying entry (whose text is a string) whose first
  model response has retrievable parts with no function call among them and a non-empty
  text \<open>T\<close>, the handler writes, right after the model call, a \<^verbatim>\<open>model\<close> entry whose text is
  \<open>T\<close> and whose \<^verbatim>\<open>relatedToMessageId\<close> is the id of the entry (and the apology after it
  only if the log rejects that write).
\<close>

theorem no_tool_reply:
  assumes "change_type change = ''added''"
    and "field (change_doc_data change) ''role'' = JStr ''user''"
    and "\<not> truthy (field (change_doc_data change) ''processed'')"
    and "field (change_doc_data change) ''text'' = JStr t"
    and "chats_update e hist (change_doc_id change) = None"
    and "generateContent e (hist @ [ChatsUpdateProcessed (change_doc_id change)])
           (first_request (JStr t)) = Inr resp"
    and "response_parts resp = Inr (Some ps)"
    and "\<forall>p \<in> set ps. functionCall p = None"
    and "response_text resp = Some T"
    and "T \<noteq> []"
    and "h = hist @ [ChatsUpdateProcessed (change_doc_id change),
                     GenerateContent (first_request (JStr t))]"
    and "doc = \<lparr> doc_text = T, doc_role = ''model'', createdAt = ClientDate (Date_now e h),
                 relatedToMessageId = Some (change_doc_id change) \<rparr>"
  shows "snd (on_change e hist change) =
           [ChatsUpdateProcessed (change_doc_id change),
            GenerateContent (first_request (JStr t)),
            ChatsAdd doc]
           @ (case chats_add e h doc of
                None \<Rightarrow> []
              | Some err \<Rightarrow> [ChatsAdd (fallback_doc (Date_now e (h @ [ChatsAdd doc])))])"
proof -
  from assms(8) have "filter (\<lambda>p. functionCall p \<noteq> None) ps = []"
    by (simp add: filter_empty_conv)
  then have "map (the \<circ> functionCall) (filter (\<lambda>p. functionCall p \<noteq> None) ps) = []"
    by simp
  with assms(7,9) have f: "final_response_text e h' u resp = (Inr (Some T), [])" for h' u
    by (simp add: final_response_text_no_tools)
  have w: "write_response e h (change_doc_id change) (Some T) =
             (case chats_add e h doc of Some err \<Rightarrow> Inl err | None \<Rightarrow> Inr (), [ChatsAdd doc])"
    using assms(10,12) by (simp add: write_response_def reply_doc_def Let_def split: option.splits)
  show ?thesis
    using on_change_qualifying [OF assms(1-6) f] w assms(11)
    by (simp split: option.splits)
qed

theorem no_tool_reply_witness:
  "response_text (text_response ''Hello'') = Some ''Hello''
   \<and> snd (on_change (scripted_env (Inr (text_response ''Hello'')) (Inl (JsError ''down'')) (Inr JNull)) []
            (user_change ''m1'' ''hi''))
     = [ChatsUpdateProcessed ''m1'', GenerateContent (first_request (JStr ''hi'')),
        ChatsAdd \<lparr> doc_text = ''Hello'', doc_role = ''model'', createdAt = ClientDate 1002,
                   relatedToMessageId = Some ''m1'' \<rparr>]"
proof -
  let ?R = "text_response ''Hello''"
  let ?E = "scripted_env (Inr ?R) (Inl (JsError ''down'')) (Inr JNull)"
  let ?C = "user_change ''m1'' ''hi''"
  have a: "change_type ?C = ''added''" by (simp add: user_change_def)
  have b: "field (change_doc_data ?C) ''role'' = JStr ''user''"
    by (simp add: user_change_def field_def)
  have c: "\<not> truthy (field (change_doc_data ?C) ''processed'')"
    by (simp add: user_change_def field_def)
  have tx: "field (change_doc_data ?C) ''text'' = JStr ''hi''"
    by (simp add: user_change_def field_def)
  have d: "chats_update ?E [] (change_doc_id ?C) = None" by (simp add: scripted_env_def)
  have g: "generateContent ?E ([] @ [ChatsUpdateProcessed (change_doc_id ?C)])
             (first_request (JStr ''hi'')) = Inr ?R"
    by (simp add: scripted_env_def first_request_def)
  have p: "response_parts ?R = Inr (Some [\<lparr> part_text = Some ''Hello'', functionCall = None \<rparr>])"
    by (simp add: response_parts_def text_response_def)
  have q: "\<forall>p \<in> set [\<lparr> part_text = Some ''Hello'', functionCall = None \<rparr>]. functionCall p = None"
    by simp
  have t: "response_text ?R = Some ''Hello''" by (simp add: text_response_def)
  have n: "''Hello'' \<noteq> []" by simp
  from no_tool_reply [OF a b c tx d g p q t n refl refl] t show ?thesis
    by (simp add: user_change_def scripted_env_def)
qed

text \<open>
  Claim C3 as stated fails when the text is the empty string: the response has parts, no
  function call and text \<^verbatim>\<open>""\<close>, and no entry is written.
\<close>

theorem empty_text_counterexample:
  "response_text (text_response []) = Some []
   \<and> response_parts (text_response [])
       = Inr (Some [\<lparr> part_text = Some [], functionCall = None \<rparr>])
   \<and> on_change (scripted_env (Inr (text_response [])) (Inl (JsError ''down'')) (Inr JNull)) []
       (user_change ''m1'' ''hi'')
     = (Resolved, [ChatsUpdateProcessed ''m1'', GenerateContent (first_request (JStr ''hi''))])"
  by (simp add: on_change_def try_block_def final_response_text_def write_response_def
        response_parts_def scripted_env_def text_response_def user_change_def field_def
        first_request_def Let_def)





lemma on_change_adds_client_date:
  "ChatsAdd d \<in> set (snd (on_change e hist change)) \<Longrightarrow> createdAt d \<noteq> ServerTimestamp"
  by (auto simp: on_change_def try_block_def write_response_def reply_doc_def fallback_doc_def
                 Let_def
           dest: final_response_text_no_add
           split: if_splits option.splits prod.splits sum.splits)

text \<open>
  Claim C8 does not hold of the code. The entry below is written for the user entry
  \<^verbatim>\<open>{text: 'hi', role: 'user', processed: false}\<close> answered by the model with the text
  \<^verbatim>\<open>Hello\<close>: its \<^verbatim>\<open>createdAt\<close> is a \<^verbatim>\<open>Date\<close> built from the clock of the bridge process, not
  the server-timestamp sentinel; with the process clock set to 5 the same run writes 5.
\<close>

theorem reply_createdAt_from_process_clock:
  "snd (on_change (scripted_env (Inr (text_response ''Hello'')) (Inl (JsError ''down'')) (Inr JNull)) []
          (user_change ''m1'' ''hi''))
     = [ChatsUpdateProcessed ''m1'', GenerateContent (first_request (JStr ''hi'')),
        ChatsAdd \<lparr> doc_text = ''Hello'', doc_role = ''model'', createdAt = ClientDate 1002,
                   relatedToMessageId = Some ''m1'' \<rparr>]
   \<and> snd (on_change ((scripted_env (Inr (text_response ''Hello'')) (Inl (JsError ''down'')) (Inr JNull))
                        \<lparr> Date_now := (\<lambda>hist. 5) \<rparr>) []
          (user_change ''m1'' ''hi''))
     = [ChatsUpdateProcessed ''m1'', GenerateContent (first_request (JStr ''hi'')),
        ChatsAdd \<lparr> doc_text = ''Hello'', doc_role = ''model'', createdAt = ClientDate 5,
                   relatedToMessageId = Some ''m1'' \<rparr>]
   \<and> createdAt (fallback_doc 5) = ClientDate 5"
  by (simp add: on_change_def try_block_def final_response_text_def write_response_def
        response_parts_def scripted_env_def text_response_def user_change_def field_def
        first_request_def reply_doc_def fallback_doc_def Let_def)


end
